theory Spec2Isabelle
  imports Main "HOL-Library.Char_ord" "HOL-Library.List_Lexorder"
begin

section \<open>JavaScript values used by the task schema updater\<close>

text \<open>
  Strings are \<^typ>\<open>string\<close>; with \<open>Char_ord\<close> and \<open>List_Lexorder\<close> the order on them is
  the lexicographic order on character codes, which is the order of JavaScript's default
  \<open>Array.prototype.sort\<close> comparator (names here are ASCII, so a code unit is a character).
\<close>

definition startsWith :: "string \<Rightarrow> string \<Rightarrow> bool" where
  "startsWith s p = (take (length p) s = p)"

text \<open>
  \<open>new Set(xs)\<close> keeps the first occurrence of every element, in insertion order, and
  \<open>Array.from(s.values())\<close> lists them in that order.
\<close>

definition Set_add :: "'a list \<Rightarrow> 'a \<Rightarrow> 'a list" where
  "Set_add s x = (if x \<in> set s then s else s @ [x])"

definition new_Set :: "'a list \<Rightarrow> 'a list" where
  "new_Set xs = foldl Set_add [] xs"

definition Array_sort :: "string list \<Rightarrow> string list" where
  "Array_sort xs = sort xs"

datatype exn = Error string

section \<open>Module state and collaborators\<close>

text \<open>
  The registries hand out objects of which the updater reads one field each:
  \<open>m.name\<close> of a problem matcher and \<open>def.taskType\<close> of a task definition.
\<close>

record problemMatcher =
  name :: string

record taskDefinition =
  taskType :: string

text \<open>Calls the updater makes on its collaborators, in the order they are made.\<close>

datatype call =
    Resources_update string
  | Resources_add string
  | RegisterSchema "string list" string
  | TaskServer_getRegisteredTaskTypes
  | OnDidChangeProblemMatcher
  | OnDidRegisterTaskDefinition
  | OnDidUnregisterTaskDefinition

text \<open>
  The state the updater reads and writes: the two module-level arrays
  \<open>problemMatcherNames\<close> and \<open>supportedTaskTypes\<close> (mutated in place, hence shared with
  the schema template that refers to them), what the two registries currently return from
  \<open>getAll()\<close>, the contents of the in-memory resource store, the calls made so far and the
  number of \<open>taskServer.getRegisteredTaskTypes()\<close> promises that are still pending.
\<close>

record world =
  problemMatcherNames :: "string list"
  supportedTaskTypes :: "string list"
  problemMatcherRegistry :: "problemMatcher list"
  taskDefinitionRegistry :: "taskDefinition list"
  inmemoryResources :: "string \<rightharpoonup> string"
  calls :: "call list"
  pending :: nat

text \<open>The state when the module has been loaded (source lines 162 and 163).\<close>

definition module_loaded :: "problemMatcher list \<Rightarrow> taskDefinition list \<Rightarrow> world" where
  "module_loaded ms ds =
     \<lparr> problemMatcherNames = [],
       supportedTaskTypes = [''shell'', ''process''],
       problemMatcherRegistry = ms,
       taskDefinitionRegistry = ds,
       inmemoryResources = Map.empty,
       calls = [],
       pending = 0 \<rparr>"

section \<open>Schema objects\<close>

text \<open>
  A schema object is a tree of strings, arrays and objects (keys in insertion order).
  The template does not contain copies of the two module-level arrays but references to
  them: \<open>JShared\<close> is such a reference, and its value is whatever the array holds when the
  object is read.
\<close>

datatype slot = ProblemMatcherNames | SupportedTaskTypes

datatype json =
    JString string
  | JArray "json list"
  | JObject "(string \<times> json) list"
  | JShared slot

definition slotValue :: "world \<Rightarrow> slot \<Rightarrow> string list" where
  "slotValue w s = (case s of ProblemMatcherNames \<Rightarrow> problemMatcherNames w
                            | SupportedTaskTypes \<Rightarrow> supportedTaskTypes w)"

text \<open>
  Modelled from the spec: \<open>deepClone\<close> of \<open>@theia/core/lib/common\<close> is not part of the
  source file; it is the deep copy the spec describes: every object and every array
  reachable from the argument is copied, so the copy of a shared array holds the elements
  the array has at the time of the copy.
\<close>

primrec deepClone :: "world \<Rightarrow> json \<Rightarrow> json" where
  "deepClone w (JString s) = JString s"
| "deepClone w (JArray xs) = JArray (map (deepClone w) xs)"
| "deepClone w (JObject kvs) = JObject (map (map_prod id (deepClone w)) kvs)"
| "deepClone w (JShared s) = JArray (map JString (slotValue w s))"

primrec shared_free :: "json \<Rightarrow> bool" where
  "shared_free (JString s) = True"
| "shared_free (JArray xs) = list_all id (map shared_free xs)"
| "shared_free (JObject kvs) = list_all snd (map (map_prod id shared_free) kvs)"
| "shared_free (JShared s) = False"

subsection \<open>\<open>JSON.stringify\<close>\<close>

definition hexDigit :: "nat \<Rightarrow> char" where
  "hexDigit n = ''0123456789abcdef'' ! (n mod 16)"

definition quoteChar :: "char \<Rightarrow> string" where
  "quoteChar c =
     (if c = CHR 0x22 then [CHR 0x5C, CHR 0x22]
      else if c = CHR 0x5C then [CHR 0x5C, CHR 0x5C]
      else if c = CHR 0x08 then [CHR 0x5C, CHR ''b'']
      else if c = CHR 0x09 then [CHR 0x5C, CHR ''t'']
      else if c = CHR 0x0A then [CHR 0x5C, CHR ''n'']
      else if c = CHR 0x0C then [CHR 0x5C, CHR ''f'']
      else if c = CHR 0x0D then [CHR 0x5C, CHR ''r'']
      else if (of_char c :: nat) < 32
        then [CHR 0x5C, CHR ''u'', CHR ''0'', CHR ''0'',
              hexDigit (of_char c div 16), hexDigit (of_char c)]
      else [c])"

definition quoteJSONString :: "string \<Rightarrow> string" where
  "quoteJSONString s = CHR 0x22 # concat (map quoteChar s) @ [CHR 0x22]"

fun commaJoin :: "string list \<Rightarrow> string" where
  "commaJoin [] = []"
| "commaJoin [x] = x"
| "commaJoin (x # y # ys) = x @ '','' @ commaJoin (y # ys)"

definition member_text :: "string \<times> string \<Rightarrow> string" where
  "member_text kv = quoteJSONString (fst kv) @ '':'' @ snd kv"

text \<open>
  No indentation argument is given, so the output has no white space; the members of an
  object are written in insertion order; a shared array is written with the elements it
  holds when the serializer reads it.
\<close>

primrec JSON_stringify :: "world \<Rightarrow> json \<Rightarrow> string" where
  "JSON_stringify w (JString s) = quoteJSONString s"
| "JSON_stringify w (JArray xs) = ''['' @ commaJoin (map (JSON_stringify w) xs) @ '']''"
| "JSON_stringify w (JObject kvs) =
     ''{'' @ commaJoin (map member_text (map (map_prod id (JSON_stringify w)) kvs)) @ ''}''"
| "JSON_stringify w (JShared s) =
     ''['' @ commaJoin (map quoteJSONString (slotValue w s)) @ '']''"

text \<open>Reading a member of an object, or an element of an array, along a path.\<close>

datatype selector = Key string | Index nat

fun select :: "json \<Rightarrow> selector \<Rightarrow> json option" where
  "select (JObject kvs) (Key k) = map_of kvs k"
| "select (JArray xs) (Index i) = (if i < length xs then Some (xs ! i) else None)"
| "select _ _ = None"

fun select_path :: "json \<Rightarrow> selector list \<Rightarrow> json option" where
  "select_path j [] = Some j"
| "select_path j (s # ss) = (case select j s of None \<Rightarrow> None | Some j' \<Rightarrow> select_path j' ss)"

subsection \<open>The static template\<close>

definition taskSchemaId :: string where
  "taskSchemaId = ''vscode://schemas/tasks''"

definition commandSchema :: json where
  "commandSchema = JObject
     [(''type'', JString ''string''),
      (''description'', JString ''The actual command or script to execute'')]"

definition commandArgSchema :: json where
  "commandArgSchema = JObject
     [(''type'', JString ''array''),
      (''description'',
         JString ''A list of strings, each one being one argument to pass to the command''),
      (''items'', JObject [(''type'', JString ''string'')])]"

definition commandOptionsSchema :: json where
  "commandOptionsSchema = JObject
     [(''type'', JString ''object''),
      (''description'', JString ''The command options used when the command is executed''),
      (''properties'', JObject
        [(''cwd'', JObject
           [(''type'', JString ''string''),
            (''description'', JString ''The directory in which the command will be executed''),
            (''default'', JString ''${workspaceFolder}'')]),
         (''env'', JObject
           [(''type'', JString ''object''),
            (''description'', JString
               ''The environment of the executed program or shell. If omitted the parent process' environment is used'')]),
         (''shell'', JObject
           [(''type'', JString ''object''),
            (''description'', JString ''Configuration of the shell when task type is `shell`''),
            (''properties'', JObject
              [(''executable'', JObject
                 [(''type'', JString ''string''),
                  (''description'', JString ''The shell to use'')]),
               (''args'', JObject
                 [(''type'', JString ''array''),
                  (''description'', JString
                     (''The arguments to be passed to the shell executable to run in command mode''
                      @ [CHR 0x0A] @ replicate 24 CHR '' ''
                      @ ''(e.g ['-c'] for bash or ['/S', '/C'] for cmd.exe)'')),
                  (''items'', JObject [(''type'', JString ''string'')])])])])])]"

definition osSchema :: "string \<Rightarrow> json" where
  "osSchema description = JObject
     [(''type'', JString ''object''),
      (''description'', JString description),
      (''properties'', JObject
        [(''command'', commandSchema),
         (''args'', commandArgSchema),
         (''options'', commandOptionsSchema)])]"

definition taskConfigurationSchema :: json where
  "taskConfigurationSchema = JObject
     [(''$id'', JString taskSchemaId),
      (''oneOf'', JArray
        [JObject
          [(''allOf'', JArray
            [JObject
              [(''type'', JString ''object''),
               (''required'', JArray [JString ''type'']),
               (''properties'', JObject
                 [(''label'', JObject
                    [(''type'', JString ''string''),
                     (''description'', JString
                        ''A unique string that identifies the task that is also used as task's user interface label'')]),
                  (''type'', JObject
                    [(''type'', JString ''string''),
                     (''enum'', JShared SupportedTaskTypes),
                     (''default'', JString ''shell''),
                     (''description'', JString
                        ''Determines what type of process will be used to execute the task. Only shell types will have output shown on the user interface'')]),
                  (''command'', commandSchema),
                  (''args'', commandArgSchema),
                  (''options'', commandOptionsSchema),
                  (''windows'', osSchema
                     ''Windows specific command configuration that overrides the command, args, and options''),
                  (''osx'', osSchema
                     ''MacOS specific command configuration that overrides the command, args, and options''),
                  (''linux'', osSchema
                     ''Linux specific command configuration that overrides the default command, args, and options''),
                  (''problemMatcher'', JObject
                    [(''oneOf'', JArray
                      [JObject
                        [(''type'', JString ''string''),
                         (''description'', JString
                            ''Name of the problem matcher to parse the output of the task''),
                         (''enum'', JShared ProblemMatcherNames)],
                       JObject
                        [(''type'', JString ''object''),
                         (''description'', JString
                            ''User defined problem matcher(s) to parse the output of the task'')],
                       JObject
                        [(''type'', JString ''array''),
                         (''description'', JString
                            ''Name(s) of the problem matcher(s) to parse the output of the task''),
                         (''items'', JObject
                           [(''type'', JString ''string''),
                            (''enum'', JShared ProblemMatcherNames)])]])])])]])]])]"

text \<open>
  What the class gets from outside: the \<open>inputs\<close> definition of the imported
  \<open>inputsSchema\<close>, and the two operations of the injected \<open>InMemoryResources\<close>, each
  either throwing or returning the new contents of the store.
\<close>

record collaborators =
  inputsSchema_inputs :: json
  resources_update :: "string \<Rightarrow> string \<Rightarrow> (string \<rightharpoonup> string) \<Rightarrow> exn + (string \<rightharpoonup> string)"
  resources_add :: "string \<Rightarrow> string \<Rightarrow> (string \<rightharpoonup> string) \<Rightarrow> exn + (string \<rightharpoonup> string)"

text \<open>
  Modelled from the spec: the resource store \<open>InMemoryResources\<close> is not part of the source
  file. The spec gives it \<open>update(id, content)\<close>, which fails if no resource exists for the
  identifier, and \<open>add(id, content)\<close>, which registers a new resource.
\<close>

definition inmemory_update :: "string \<Rightarrow> string \<Rightarrow> (string \<rightharpoonup> string) \<Rightarrow> exn + (string \<rightharpoonup> string)" where
  "inmemory_update uri content r =
     (if r uri = None then Inl (Error ''Cannot update non-existed in-memory resource'')
      else Inr (r(uri \<mapsto> content)))"

definition inmemory_add :: "string \<Rightarrow> string \<Rightarrow> (string \<rightharpoonup> string) \<Rightarrow> exn + (string \<rightharpoonup> string)" where
  "inmemory_add uri content r = Inr (r(uri \<mapsto> content))"

definition inmemory :: "json \<Rightarrow> collaborators" where
  "inmemory i = \<lparr> inputsSchema_inputs = i,
                  resources_update = inmemory_update,
                  resources_add = inmemory_add \<rparr>"

text \<open>Modelled from the spec: a resource store whose writes fail (store unavailable).\<close>

definition unavailable :: "json \<Rightarrow> collaborators" where
  "unavailable i = \<lparr> inputsSchema_inputs = i,
                     resources_update = (\<lambda>uri content r. Inl (Error ''update failed'')),
                     resources_add = (\<lambda>uri content r. Inl (Error ''add failed'')) \<rparr>"

section \<open>The class \<open>TaskSchemaUpdater\<close>\<close>

definition getTaskSchema :: "collaborators \<Rightarrow> world \<Rightarrow> json" where
  "getTaskSchema c w = JObject
     [(''properties'', JObject
        [(''tasks'', JObject
           [(''type'', JString ''array''),
            (''items'', deepClone w taskConfigurationSchema)]),
         (''inputs'', inputsSchema_inputs c)])]"

definition getStrigifiedTaskSchema :: "collaborators \<Rightarrow> world \<Rightarrow> string" where
  "getStrigifiedTaskSchema c w = JSON_stringify w (getTaskSchema c w)"

definition update :: "collaborators \<Rightarrow> world \<Rightarrow> (exn + unit) \<times> world" where
  "update c w =
     (let taskSchemaUri = taskSchemaId;
          schemaContent = getStrigifiedTaskSchema c w;
          w1 = w\<lparr>calls := calls w @ [Resources_update taskSchemaUri]\<rparr>
      in case resources_update c taskSchemaUri schemaContent (inmemoryResources w1) of
           Inr r \<Rightarrow> (Inr (), w1\<lparr>inmemoryResources := r\<rparr>)
         | Inl e \<Rightarrow>
             (let w2 = w1\<lparr>calls := calls w1 @ [Resources_add taskSchemaUri]\<rparr>
              in case resources_add c taskSchemaUri schemaContent (inmemoryResources w2) of
                   Inl e' \<Rightarrow> (Inl e', w2)
                 | Inr r \<Rightarrow>
                     (Inr (), w2\<lparr>inmemoryResources := r,
                                 calls := calls w2 @ [RegisterSchema [''tasks.json''] taskSchemaUri]\<rparr>)))"

text \<open>
  \<open>getRegisteredTaskTypes\<close> is asynchronous. Up to its \<open>await\<close> it sends the request to
  the task server; it is resumed with the outcome of the request: a rejection is thrown
  on, a list of types is merged with the types the task definition registry holds then.
  The resumption of \<open>updateSupportedTaskTypes\<close> follows that of \<open>getRegisteredTaskTypes\<close> in
  the microtask queue, before any listener can run; the two are one step here.
\<close>

definition getRegisteredTaskTypes_request :: "world \<Rightarrow> world" where
  "getRegisteredTaskTypes_request w = w\<lparr>calls := calls w @ [TaskServer_getRegisteredTaskTypes]\<rparr>"

definition getRegisteredTaskTypes_resume :: "exn + string list \<Rightarrow> world \<Rightarrow> exn + string list" where
  "getRegisteredTaskTypes_resume reply w =
     (case reply of
        Inl e \<Rightarrow> Inl e
      | Inr serverSupportedTypes \<Rightarrow>
          (let browserSupportedTypes = map taskType (taskDefinitionRegistry w);
               allTypes = new_Set (serverSupportedTypes @ browserSupportedTypes)
           in Inr (Array_sort allTypes)))"

definition getRegisteredTaskTypes :: "exn + string list \<Rightarrow> world \<Rightarrow> (exn + string list) \<times> world" where
  "getRegisteredTaskTypes reply w =
     (let w1 = getRegisteredTaskTypes_request w in (getRegisteredTaskTypes_resume reply w1, w1))"

text \<open>The arrow function of source line 100.\<close>

definition matcherName :: "string \<Rightarrow> string" where
  "matcherName n = (if startsWith n ''$'' then n else ''$'' @ n)"

definition updateProblemMatcherNames :: "collaborators \<Rightarrow> world \<Rightarrow> (exn + unit) \<times> world" where
  "updateProblemMatcherNames c w =
     (let matcherNames = map (\<lambda>m. matcherName (name m)) (problemMatcherRegistry w);
          w1 = w\<lparr>problemMatcherNames := []\<rparr>;
          w2 = w1\<lparr>problemMatcherNames := problemMatcherNames w1 @ matcherNames\<rparr>
      in update c w2)"

definition updateSupportedTaskTypes_resume :: "collaborators \<Rightarrow> exn + string list \<Rightarrow> world \<Rightarrow> (exn + unit) \<times> world" where
  "updateSupportedTaskTypes_resume c reply w =
     (case getRegisteredTaskTypes_resume reply w of
        Inl e \<Rightarrow> (Inl e, w)
      | Inr allTypes \<Rightarrow>
          (let w1 = w\<lparr>supportedTaskTypes := []\<rparr>;
               w2 = w1\<lparr>supportedTaskTypes := supportedTaskTypes w1 @ allTypes\<rparr>
           in update c w2))"

definition updateSupportedTaskTypes :: "collaborators \<Rightarrow> exn + string list \<Rightarrow> world \<Rightarrow> (exn + unit) \<times> world" where
  "updateSupportedTaskTypes c reply w =
     updateSupportedTaskTypes_resume c reply (getRegisteredTaskTypes_request w)"

text \<open>
  \<open>init\<close> does not await \<open>updateSupportedTaskTypes()\<close>: that call runs up to the request to
  the task server and leaves a pending promise; \<open>init\<close> goes on to register the three
  listeners. An exception of \<open>updateProblemMatcherNames()\<close> ends \<open>init\<close> at once.
\<close>

definition init :: "collaborators \<Rightarrow> world \<Rightarrow> (exn + unit) \<times> world" where
  "init c w =
     (case updateProblemMatcherNames c w of
        (Inl e, w1) \<Rightarrow> (Inl e, w1)
      | (Inr u, w1) \<Rightarrow>
          (let w2 = getRegisteredTaskTypes_request w1;
               w3 = w2\<lparr>pending := pending w2 + 1\<rparr>;
               w4 = w3\<lparr>calls := calls w3 @ [OnDidChangeProblemMatcher]\<rparr>;
               w5 = w4\<lparr>calls := calls w4 @ [OnDidRegisterTaskDefinition]\<rparr>;
               w6 = w5\<lparr>calls := calls w5 @ [OnDidUnregisterTaskDefinition]\<rparr>
           in (Inr (), w6)))"

section \<open>The environment\<close>

text \<open>
  What happens around the updater: a registry changes its contents and fires its event, or
  the task server answers the oldest pending request. A listener runs only once \<open>init\<close>
  has registered it; what a listener throws is lost to the emitter, the state stays as the
  listener left it.
\<close>

datatype event =
    ProblemMatcherChanged "problemMatcher list"
  | TaskDefinitionRegistered "taskDefinition list"
  | TaskDefinitionUnregistered "taskDefinition list"
  | TaskServerReplied "exn + string list"

definition listener_updateSupportedTaskTypes :: "world \<Rightarrow> world" where
  "listener_updateSupportedTaskTypes w =
     (let w1 = getRegisteredTaskTypes_request w in w1\<lparr>pending := pending w1 + 1\<rparr>)"

fun step :: "collaborators \<Rightarrow> world \<Rightarrow> event \<Rightarrow> world" where
  "step c w (ProblemMatcherChanged ms) =
     (let w1 = w\<lparr>problemMatcherRegistry := ms\<rparr>
      in if OnDidChangeProblemMatcher \<in> set (calls w1)
         then snd (updateProblemMatcherNames c w1) else w1)"
| "step c w (TaskDefinitionRegistered ds) =
     (let w1 = w\<lparr>taskDefinitionRegistry := ds\<rparr>
      in if OnDidRegisterTaskDefinition \<in> set (calls w1)
         then listener_updateSupportedTaskTypes w1 else w1)"
| "step c w (TaskDefinitionUnregistered ds) =
     (let w1 = w\<lparr>taskDefinitionRegistry := ds\<rparr>
      in if OnDidUnregisterTaskDefinition \<in> set (calls w1)
         then listener_updateSupportedTaskTypes w1 else w1)"
| "step c w (TaskServerReplied reply) =
     (if pending w = 0 then w
      else snd (updateSupportedTaskTypes_resume c reply (w\<lparr>pending := pending w - 1\<rparr>)))"

definition run :: "collaborators \<Rightarrow> world \<Rightarrow> event list \<Rightarrow> world" where
  "run c w es = foldl (step c) w es"

text \<open>The number of publications: every run of \<open>update\<close> starts with one \<open>Resources_update\<close>.\<close>

definition publications :: "world \<Rightarrow> nat" where
  "publications w = length (filter (\<lambda>k. k = Resources_update taskSchemaId) (calls w))"

definition associations :: "world \<Rightarrow> nat" where
  "associations w = length (filter (\<lambda>k. k = RegisterSchema [''tasks.json''] taskSchemaId) (calls w))"

definition registrations :: "world \<Rightarrow> nat" where
  "registrations w = length (filter (\<lambda>k. k = Resources_add taskSchemaId) (calls w))"

text \<open>Where the assembled schema holds the three enumerations.\<close>

definition taskProperties :: "selector list" where
  "taskProperties = [Key ''properties'', Key ''tasks'', Key ''items'', Key ''oneOf'', Index 0,
                     Key ''allOf'', Index 0, Key ''properties'']"

definition typeEnum :: "selector list" where
  "typeEnum = taskProperties @ [Key ''type'', Key ''enum'']"

definition problemMatcherEnum :: "selector list" where
  "problemMatcherEnum = taskProperties @ [Key ''problemMatcher'', Key ''oneOf'', Index 0, Key ''enum'']"

definition problemMatcherItemsEnum :: "selector list" where
  "problemMatcherItemsEnum =
     taskProperties @ [Key ''problemMatcher'', Key ''oneOf'', Index 2, Key ''items'', Key ''enum'']"

definition names :: "string list \<Rightarrow> json" where
  "names xs = JArray (map JString xs)"

section \<open>Auxiliary facts\<close>

lemma update_slots [simp]:
  "problemMatcherNames (snd (update c w)) = problemMatcherNames w"
  "supportedTaskTypes (snd (update c w)) = supportedTaskTypes w"
  "problemMatcherRegistry (snd (update c w)) = problemMatcherRegistry w"
  "taskDefinitionRegistry (snd (update c w)) = taskDefinitionRegistry w"
  "pending (snd (update c w)) = pending w"
  by (simp_all add: update_def Let_def split: sum.split)

lemma set_foldl_Set_add: "set (foldl Set_add acc xs) = set acc \<union> set xs"
  by (induction xs arbitrary: acc) (auto simp: Set_add_def)

lemma distinct_foldl_Set_add: "distinct acc \<Longrightarrow> distinct (foldl Set_add acc xs)"
  by (induction xs arbitrary: acc) (auto simp: Set_add_def)

lemma Array_sort_new_Set: "Array_sort (new_Set xs) = sorted_list_of_set (set xs)"
proof -
  have "sorted (Array_sort (new_Set xs))" "distinct (Array_sort (new_Set xs))"
       "set (Array_sort (new_Set xs)) = set xs"
    by (simp_all add: Array_sort_def new_Set_def distinct_foldl_Set_add set_foldl_Set_add)
  then show ?thesis
    by (metis sorted_list_of_set.idem_if_sorted_distinct)
qed

lemma getRegisteredTaskTypes_resume_Inr:
  "getRegisteredTaskTypes_resume (Inr ts) w =
     Inr (sorted_list_of_set (set ts \<union> taskType ` set (taskDefinitionRegistry w)))"
  by (simp add: getRegisteredTaskTypes_resume_def Array_sort_new_Set)

lemma getRegisteredTaskTypes_resume_Inl:
  "getRegisteredTaskTypes_resume (Inl e) w = Inl e"
  by (simp add: getRegisteredTaskTypes_resume_def)

lemma update_calls_cases:
  "calls (snd (update c w)) = calls w @ [Resources_update taskSchemaId]
   \<or> calls (snd (update c w)) = calls w @ [Resources_update taskSchemaId, Resources_add taskSchemaId]
   \<or> calls (snd (update c w)) = calls w @ [Resources_update taskSchemaId, Resources_add taskSchemaId,
         RegisterSchema [''tasks.json''] taskSchemaId]"
  by (simp add: update_def Let_def split: sum.split)

lemma update_calls_mono: "set (calls w) \<subseteq> set (calls (snd (update c w)))"
  using update_calls_cases[of c w] by auto

lemma publications_update: "publications (snd (update c w)) = Suc (publications w)"
  using update_calls_cases[of c w] by (auto simp: publications_def)

lemma update_inmemory_absent:
  assumes "inmemoryResources w taskSchemaId = None"
  shows "fst (update (inmemory i) w) = Inr ()"
    and "calls (snd (update (inmemory i) w)) = calls w @ [Resources_update taskSchemaId,
           Resources_add taskSchemaId, RegisterSchema [''tasks.json''] taskSchemaId]"
    and "inmemoryResources (snd (update (inmemory i) w)) =
           (inmemoryResources w)(taskSchemaId \<mapsto> getStrigifiedTaskSchema (inmemory i) w)"
  using assms by (simp_all add: update_def inmemory_def inmemory_update_def inmemory_add_def)

lemma update_inmemory_present:
  assumes "inmemoryResources w taskSchemaId \<noteq> None"
  shows "fst (update (inmemory i) w) = Inr ()"
    and "calls (snd (update (inmemory i) w)) = calls w @ [Resources_update taskSchemaId]"
    and "inmemoryResources (snd (update (inmemory i) w)) =
           (inmemoryResources w)(taskSchemaId \<mapsto> getStrigifiedTaskSchema (inmemory i) w)"
  using assms by (auto simp add: update_def inmemory_def inmemory_update_def inmemory_add_def)

lemma update_inmemory_ok: "fst (update (inmemory i) w) = Inr ()"
  by (cases "inmemoryResources w taskSchemaId") (simp_all add: update_inmemory_absent update_inmemory_present)

lemma update_inmemory_content:
  "inmemoryResources (snd (update (inmemory i) w)) taskSchemaId = Some (getStrigifiedTaskSchema (inmemory i) w)"
  by (cases "inmemoryResources w taskSchemaId") (simp_all add: update_inmemory_absent update_inmemory_present)

lemma update_succeeds_calls:
  assumes "resources_update c taskSchemaId (getStrigifiedTaskSchema c w) (inmemoryResources w) = Inr r"
  shows "calls (snd (update c w)) = calls w @ [Resources_update taskSchemaId]"
  using assms by (simp add: update_def)

lemma update_throws_iff:
  "fst (update c w) = Inl e \<longleftrightarrow>
     (\<exists>e1. resources_update c taskSchemaId (getStrigifiedTaskSchema c w) (inmemoryResources w) = Inl e1)
     \<and> resources_add c taskSchemaId (getStrigifiedTaskSchema c w) (inmemoryResources w) = Inl e"
  by (auto simp add: update_def Let_def split: sum.splits)

lemma deepClone_cong:
  "slotValue w = slotValue w' \<Longrightarrow> deepClone w j = deepClone w' j"
  by (induction j) (auto)

lemma JSON_stringify_cong:
  "slotValue w = slotValue w' \<Longrightarrow> JSON_stringify w j = JSON_stringify w' j"
proof (induction j)
  case (JArray xs)
  then have h: "map (JSON_stringify w) xs = map (JSON_stringify w') xs"
    by (intro map_cong) auto
  show ?case by (simp only: JSON_stringify.simps deepClone.simps h list.map_id id_apply)
next
  case (JObject kvs)
  then have h: "map (map_prod id (JSON_stringify w)) kvs = map (map_prod id (JSON_stringify w')) kvs"
    by (intro map_cong) auto
  show ?case by (simp only: JSON_stringify.simps deepClone.simps h list.map_id id_apply)
qed (simp_all)

lemma shared_free_deepClone: "shared_free (deepClone w j)"
  by (induction j) (auto simp: list_all_iff)

lemma deepClone_shared_free: "shared_free j \<Longrightarrow> deepClone w j = j"
proof (induction j)
  case (JArray xs)
  then have h: "map (deepClone w) xs = map id xs"
    by (intro map_cong) (auto simp: list_all_iff)
  show ?case by (simp only: JSON_stringify.simps deepClone.simps h list.map_id id_apply)
next
  case (JObject kvs)
  then have h: "map (map_prod id (deepClone w)) kvs = map id kvs"
    by (intro map_cong) (auto simp: list_all_iff)
  show ?case by (simp only: JSON_stringify.simps deepClone.simps h list.map_id id_apply)
qed (simp_all)

lemma JSON_stringify_shared_free: "shared_free j \<Longrightarrow> JSON_stringify w j = JSON_stringify w' j"
proof (induction j)
  case (JArray xs)
  then have h: "map (JSON_stringify w) xs = map (JSON_stringify w') xs"
    by (intro map_cong) (auto simp: list_all_iff)
  show ?case by (simp only: JSON_stringify.simps deepClone.simps h list.map_id id_apply)
next
  case (JObject kvs)
  then have h: "map (map_prod id (JSON_stringify w)) kvs = map (map_prod id (JSON_stringify w')) kvs"
    by (intro map_cong) (auto simp: list_all_iff)
  show ?case by (simp only: JSON_stringify.simps deepClone.simps h list.map_id id_apply)
qed (simp_all)

lemma select_typeEnum:
  "select_path (getTaskSchema c w) typeEnum = Some (names (supportedTaskTypes w))"
  by (simp add: getTaskSchema_def typeEnum_def taskProperties_def taskConfigurationSchema_def
      names_def slotValue_def)

lemma select_problemMatcherEnum:
  "select_path (getTaskSchema c w) problemMatcherEnum = Some (names (problemMatcherNames w))"
  by (simp add: getTaskSchema_def problemMatcherEnum_def taskProperties_def taskConfigurationSchema_def
      names_def slotValue_def)

lemma select_problemMatcherItemsEnum:
  "select_path (getTaskSchema c w) problemMatcherItemsEnum = Some (names (problemMatcherNames w))"
  by (simp add: getTaskSchema_def problemMatcherItemsEnum_def taskProperties_def taskConfigurationSchema_def
      names_def slotValue_def)

lemma updateProblemMatcherNames_slots [simp]:
  "problemMatcherNames (snd (updateProblemMatcherNames c w)) =
     map (\<lambda>m. matcherName (name m)) (problemMatcherRegistry w)"
  "supportedTaskTypes (snd (updateProblemMatcherNames c w)) = supportedTaskTypes w"
  "problemMatcherRegistry (snd (updateProblemMatcherNames c w)) = problemMatcherRegistry w"
  "taskDefinitionRegistry (snd (updateProblemMatcherNames c w)) = taskDefinitionRegistry w"
  "pending (snd (updateProblemMatcherNames c w)) = pending w"
  by (simp_all add: updateProblemMatcherNames_def)

lemma updateProblemMatcherNames_calls:
  "set (calls w) \<subseteq> set (calls (snd (updateProblemMatcherNames c w)))"
  using update_calls_mono[of "w\<lparr>problemMatcherNames := map (\<lambda>m. matcherName (name m)) (problemMatcherRegistry w)\<rparr>" c]
  by (simp add: updateProblemMatcherNames_def)

lemma publications_updateProblemMatcherNames:
  "publications (snd (updateProblemMatcherNames c w)) = Suc (publications w)"
  by (simp add: updateProblemMatcherNames_def publications_update) (simp add: publications_def)

lemma updateSupportedTaskTypes_resume_Inl:
  "updateSupportedTaskTypes_resume c (Inl e) w = (Inl e, w)"
  by (simp add: updateSupportedTaskTypes_resume_def getRegisteredTaskTypes_resume_Inl)

lemma updateSupportedTaskTypes_resume_slots [simp]:
  "supportedTaskTypes (snd (updateSupportedTaskTypes_resume c (Inr ts) w)) =
     sorted_list_of_set (set ts \<union> taskType ` set (taskDefinitionRegistry w))"
  "problemMatcherNames (snd (updateSupportedTaskTypes_resume c reply w)) = problemMatcherNames w"
  "problemMatcherRegistry (snd (updateSupportedTaskTypes_resume c reply w)) = problemMatcherRegistry w"
  "taskDefinitionRegistry (snd (updateSupportedTaskTypes_resume c reply w)) = taskDefinitionRegistry w"
  "pending (snd (updateSupportedTaskTypes_resume c reply w)) = pending w"
  by (simp_all add: updateSupportedTaskTypes_resume_def getRegisteredTaskTypes_resume_Inr
      split: sum.split)

lemma updateSupportedTaskTypes_resume_calls:
  "set (calls w) \<subseteq> set (calls (snd (updateSupportedTaskTypes_resume c reply w)))"
proof (cases "getRegisteredTaskTypes_resume reply w")
  case (Inl e)
  then show ?thesis by (simp add: updateSupportedTaskTypes_resume_def)
next
  case (Inr ts)
  then show ?thesis
    using update_calls_mono[of "w\<lparr>supportedTaskTypes := ts\<rparr>" c]
    by (simp add: updateSupportedTaskTypes_resume_def)
qed

lemma publications_updateSupportedTaskTypes_resume:
  "publications (snd (updateSupportedTaskTypes_resume c (Inr ts) w)) = Suc (publications w)"
  by (simp add: updateSupportedTaskTypes_resume_def getRegisteredTaskTypes_resume_Inr publications_update)
     (simp add: publications_def)

lemma step_calls_mono: "set (calls w) \<subseteq> set (calls (step c w e))"
proof (cases e)
  case (ProblemMatcherChanged ms)
  then show ?thesis
    using updateProblemMatcherNames_calls[of "w\<lparr>problemMatcherRegistry := ms\<rparr>" c]
    by (simp add: Let_def)
next
  case (TaskServerReplied reply)
  then show ?thesis
    using updateSupportedTaskTypes_resume_calls[of "w\<lparr>pending := pending w - 1\<rparr>" c reply]
    by simp
qed (auto simp: Let_def listener_updateSupportedTaskTypes_def getRegisteredTaskTypes_request_def)

lemma step_matcher_invariant:
  assumes "OnDidChangeProblemMatcher \<in> set (calls w)"
      and "problemMatcherNames w = map (\<lambda>m. matcherName (name m)) (problemMatcherRegistry w)"
  shows "problemMatcherNames (step c w e) = map (\<lambda>m. matcherName (name m)) (problemMatcherRegistry (step c w e))"
  using assms
  by (cases e) (simp_all add: Let_def listener_updateSupportedTaskTypes_def getRegisteredTaskTypes_request_def)

lemma run_matcher_invariant:
  assumes "OnDidChangeProblemMatcher \<in> set (calls w)"
      and "problemMatcherNames w = map (\<lambda>m. matcherName (name m)) (problemMatcherRegistry w)"
  shows "problemMatcherNames (run c w es) = map (\<lambda>m. matcherName (name m)) (problemMatcherRegistry (run c w es))
     \<and> OnDidChangeProblemMatcher \<in> set (calls (run c w es))"
  using assms
proof (induction es arbitrary: w)
  case Nil
  then show ?case by (simp add: run_def)
next
  case (Cons e es)
  have "OnDidChangeProblemMatcher \<in> set (calls (step c w e))"
    using Cons.prems(1) step_calls_mono[of w c e] by blast
  moreover note step_matcher_invariant[OF Cons.prems]
  ultimately show ?case
    using Cons.IH[of "step c w e"] by (simp add: run_def)
qed

lemma init_ok:
  assumes "fst (init c w) = Inr ()"
  shows "snd (init c w) =
           (snd (updateProblemMatcherNames c w))
             \<lparr>calls := calls (snd (updateProblemMatcherNames c w)) @
                 [TaskServer_getRegisteredTaskTypes, OnDidChangeProblemMatcher,
                  OnDidRegisterTaskDefinition, OnDidUnregisterTaskDefinition],
               pending := Suc (pending w)\<rparr>"
    and "fst (updateProblemMatcherNames c w) = Inr ()"
proof -
  obtain r w1 where eq: "updateProblemMatcherNames c w = (r, w1)"
    by (cases "updateProblemMatcherNames c w")
  have p: "pending w1 = pending w"
    using updateProblemMatcherNames_slots(5)[of c w] eq by simp
  from assms eq show "fst (updateProblemMatcherNames c w) = Inr ()"
    by (cases r) (simp_all add: init_def)
  with eq have "r = Inr ()" by simp
  with eq p show "snd (init c w) =
           (snd (updateProblemMatcherNames c w))
             \<lparr>calls := calls (snd (updateProblemMatcherNames c w)) @
                 [TaskServer_getRegisteredTaskTypes, OnDidChangeProblemMatcher,
                  OnDidRegisterTaskDefinition, OnDidUnregisterTaskDefinition],
               pending := Suc (pending w)\<rparr>"
    by (simp add: init_def Let_def getRegisteredTaskTypes_request_def)
qed

lemma init_throws:
  assumes "fst (init c w) = Inl e"
  shows "snd (init c w) = snd (updateProblemMatcherNames c w)"
    and "fst (updateProblemMatcherNames c w) = Inl e"
proof -
  obtain r w1 where eq: "updateProblemMatcherNames c w = (r, w1)"
    by (cases "updateProblemMatcherNames c w")
  from assms eq show "fst (updateProblemMatcherNames c w) = Inl e"
    by (cases r) (simp_all add: init_def Let_def)
  with eq show "snd (init c w) = snd (updateProblemMatcherNames c w)"
    by (simp add: init_def)
qed

lemma init_inmemory_ok: "fst (init (inmemory i) w) = Inr ()"
  by (simp add: init_def Let_def updateProblemMatcherNames_def split: prod.splits sum.splits)
     (metis update_inmemory_ok fst_conv sum.distinct(1))

lemma run_Nil [simp]: "run c w [] = w"
  by (simp add: run_def)

lemma run_Cons [simp]: "run c w (e # es) = run c (step c w e) es"
  by (simp add: run_def)

lemma run_calls_mono: "set (calls w) \<subseteq> set (calls (run c w es))"
proof (induction es arbitrary: w)
  case Nil
  show ?case by simp
next
  case (Cons e es)
  show ?case using step_calls_mono[of w c e] Cons[of "step c w e"] by auto
qed

lemma init_listening:
  assumes "fst (init c w) = Inr ()"
  shows "OnDidChangeProblemMatcher \<in> set (calls (snd (init c w)))"
    and "OnDidRegisterTaskDefinition \<in> set (calls (snd (init c w)))"
    and "OnDidUnregisterTaskDefinition \<in> set (calls (snd (init c w)))"
  by (simp_all add: init_ok(1)[OF assms])

lemma init_slots:
  "problemMatcherNames (snd (init c w)) = map (\<lambda>m. matcherName (name m)) (problemMatcherRegistry w)"
  "supportedTaskTypes (snd (init c w)) = supportedTaskTypes w"
  "problemMatcherRegistry (snd (init c w)) = problemMatcherRegistry w"
  "taskDefinitionRegistry (snd (init c w)) = taskDefinitionRegistry w"
proof -
  consider (ok) "fst (init c w) = Inr ()" | (err) e where "fst (init c w) = Inl e"
    by (cases "fst (init c w)") auto
  then have "problemMatcherNames (snd (init c w)) = map (\<lambda>m. matcherName (name m)) (problemMatcherRegistry w)
     \<and> supportedTaskTypes (snd (init c w)) = supportedTaskTypes w
     \<and> problemMatcherRegistry (snd (init c w)) = problemMatcherRegistry w
     \<and> taskDefinitionRegistry (snd (init c w)) = taskDefinitionRegistry w"
  proof cases
    case ok
    show ?thesis by (simp add: init_ok(1)[OF ok])
  next
    case err
    show ?thesis by (simp add: init_throws(1)[OF err])
  qed
  then show
    "problemMatcherNames (snd (init c w)) = map (\<lambda>m. matcherName (name m)) (problemMatcherRegistry w)"
    "supportedTaskTypes (snd (init c w)) = supportedTaskTypes w"
    "problemMatcherRegistry (snd (init c w)) = problemMatcherRegistry w"
    "taskDefinitionRegistry (snd (init c w)) = taskDefinitionRegistry w"
    by simp_all
qed

lemma publications_init:
  assumes "fst (init c w) = Inr ()"
  shows "publications (snd (init c w)) = Suc (publications w)"
proof -
  have "publications (snd (init c w)) = publications (snd (updateProblemMatcherNames c w))"
    by (simp add: init_ok(1)[OF assms] publications_def taskSchemaId_def)
  then show ?thesis by (simp add: publications_updateProblemMatcherNames)
qed

lemma getStrigifiedTaskSchema_slots:
  assumes "problemMatcherNames v = problemMatcherNames v'"
      and "supportedTaskTypes v = supportedTaskTypes v'"
  shows "getStrigifiedTaskSchema c v = getStrigifiedTaskSchema c v'"
proof -
  have sv: "slotValue v = slotValue v'"
    using assms by (auto simp: slotValue_def fun_eq_iff split: slot.split)
  show ?thesis
    using deepClone_cong[OF sv] JSON_stringify_cong[OF sv]
    by (simp add: getStrigifiedTaskSchema_def getTaskSchema_def)
qed

lemma updateProblemMatcherNames_eq:
  "updateProblemMatcherNames c w =
     update c (w\<lparr>problemMatcherNames := map (\<lambda>m. matcherName (name m)) (problemMatcherRegistry w)\<rparr>)"
  by (simp add: updateProblemMatcherNames_def)

lemma updateSupportedTaskTypes_eq:
  "updateSupportedTaskTypes c (Inr ts) w =
     update c (w\<lparr>calls := calls w @ [TaskServer_getRegisteredTaskTypes],
                 supportedTaskTypes := Array_sort (new_Set (ts @ map taskType (taskDefinitionRegistry w)))\<rparr>)"
  by (simp add: updateSupportedTaskTypes_def updateSupportedTaskTypes_resume_def
      getRegisteredTaskTypes_resume_def getRegisteredTaskTypes_request_def)

lemma updateSupportedTaskTypes_types:
  "supportedTaskTypes (snd (updateSupportedTaskTypes c (Inr ts) w)) =
     Array_sort (new_Set (ts @ map taskType (taskDefinitionRegistry w)))"
  by (simp add: updateSupportedTaskTypes_eq)

lemma updateSupportedTaskTypes_inmemory_ok:
  "fst (updateSupportedTaskTypes (inmemory i) (Inr ts) w) = Inr ()"
  by (simp add: updateSupportedTaskTypes_eq update_inmemory_ok)

lemma update_both_throw:
  assumes "resources_update c taskSchemaId (getStrigifiedTaskSchema c v) (inmemoryResources v) = Inl e1"
      and "resources_add c taskSchemaId (getStrigifiedTaskSchema c v) (inmemoryResources v) = Inl e2"
  shows "fst (update c v) = Inl e2"
    and "inmemoryResources (snd (update c v)) = inmemoryResources v"
  using assms by (simp_all add: update_def)

lemma update_inmemory_counts:
  assumes "inmemoryResources w taskSchemaId \<noteq> None"
  shows "registrations (snd (update (inmemory i) w)) = registrations w"
    and "associations (snd (update (inmemory i) w)) = associations w"
    and "inmemoryResources (snd (update (inmemory i) w)) taskSchemaId \<noteq> None"
  using assms
  by (simp_all add: update_inmemory_present(2) update_inmemory_content registrations_def associations_def)

lemma init_inmemory_absent:
  assumes "inmemoryResources w taskSchemaId = None"
  shows "calls (snd (init (inmemory i) w)) =
           calls w @ [Resources_update taskSchemaId, Resources_add taskSchemaId,
                      RegisterSchema [''tasks.json''] taskSchemaId,
                      TaskServer_getRegisteredTaskTypes, OnDidChangeProblemMatcher,
                      OnDidRegisterTaskDefinition, OnDidUnregisterTaskDefinition]"
    and "inmemoryResources (snd (init (inmemory i) w)) taskSchemaId \<noteq> None"
  using assms
  by (simp_all add: init_ok(1)[OF init_inmemory_ok] updateProblemMatcherNames_eq
      update_inmemory_absent(2) update_inmemory_content)

lemma step_inmemory_counts:
  assumes "inmemoryResources w taskSchemaId \<noteq> None"
  shows "registrations (step (inmemory i) w e) = registrations w
     \<and> associations (step (inmemory i) w e) = associations w
     \<and> inmemoryResources (step (inmemory i) w e) taskSchemaId \<noteq> None"
proof (cases e)
  case (ProblemMatcherChanged ms)
  let ?v = "w\<lparr>problemMatcherRegistry := ms,
              problemMatcherNames := map (\<lambda>m. matcherName (name m)) ms\<rparr>"
  have "inmemoryResources ?v taskSchemaId \<noteq> None" using assms by simp
  from update_inmemory_counts[OF this, of i] assms ProblemMatcherChanged show ?thesis
    by (simp add: Let_def updateProblemMatcherNames_eq registrations_def associations_def)
next
  case (TaskDefinitionRegistered ds)
  with assms show ?thesis
    by (simp add: Let_def listener_updateSupportedTaskTypes_def getRegisteredTaskTypes_request_def
        registrations_def associations_def)
next
  case (TaskDefinitionUnregistered ds)
  with assms show ?thesis
    by (simp add: Let_def listener_updateSupportedTaskTypes_def getRegisteredTaskTypes_request_def
        registrations_def associations_def)
next
  case (TaskServerReplied reply)
  show ?thesis
  proof (cases reply)
    case (Inl x)
    with assms TaskServerReplied show ?thesis
      by (simp add: updateSupportedTaskTypes_resume_Inl registrations_def associations_def)
  next
    case (Inr ts)
    let ?v = "w\<lparr>pending := pending w - 1,
                supportedTaskTypes := Array_sort (new_Set (ts @ map taskType (taskDefinitionRegistry w)))\<rparr>"
    have "inmemoryResources ?v taskSchemaId \<noteq> None" using assms by simp
    from update_inmemory_counts[OF this, of i] assms TaskServerReplied Inr show ?thesis
      by (simp add: updateSupportedTaskTypes_resume_def getRegisteredTaskTypes_resume_def
          registrations_def associations_def)
  qed
qed

lemma run_inmemory_counts:
  assumes "inmemoryResources w taskSchemaId \<noteq> None"
  shows "registrations (run (inmemory i) w es) = registrations w
     \<and> associations (run (inmemory i) w es) = associations w"
  using assms
proof (induction es arbitrary: w)
  case Nil
  show ?case by simp
next
  case (Cons e es)
  from step_inmemory_counts[OF Cons.prems, of i e] Cons.IH[of "step (inmemory i) w e"]
  show ?case by simp
qed

lemma run_listening:
  assumes "fst (init c w) = Inr ()"
  shows "OnDidChangeProblemMatcher \<in> set (calls (run c (snd (init c w)) es))"
    and "OnDidRegisterTaskDefinition \<in> set (calls (run c (snd (init c w)) es))"
    and "OnDidUnregisterTaskDefinition \<in> set (calls (run c (snd (init c w)) es))"
  using init_listening[OF assms] run_calls_mono[of "snd (init c w)" c es] by blast+

lemma step_ProblemMatcherChanged:
  assumes "OnDidChangeProblemMatcher \<in> set (calls v)"
  shows "problemMatcherNames (step c v (ProblemMatcherChanged ms)) = map (\<lambda>m. matcherName (name m)) ms"
    and "supportedTaskTypes (step c v (ProblemMatcherChanged ms)) = supportedTaskTypes v"
    and "publications (step c v (ProblemMatcherChanged ms)) = Suc (publications v)"
  using assms
  by (simp_all add: Let_def publications_updateProblemMatcherNames) (simp add: publications_def)

lemma step_TaskDefinitionRegistered:
  assumes "OnDidRegisterTaskDefinition \<in> set (calls v)"
  shows "step c v (TaskDefinitionRegistered ds) =
           v\<lparr>taskDefinitionRegistry := ds,
             calls := calls v @ [TaskServer_getRegisteredTaskTypes],
             pending := Suc (pending v)\<rparr>"
  using assms
  by (simp add: Let_def listener_updateSupportedTaskTypes_def getRegisteredTaskTypes_request_def)

lemma step_TaskDefinitionUnregistered:
  assumes "OnDidUnregisterTaskDefinition \<in> set (calls v)"
  shows "step c v (TaskDefinitionUnregistered ds) =
           v\<lparr>taskDefinitionRegistry := ds,
             calls := calls v @ [TaskServer_getRegisteredTaskTypes],
             pending := Suc (pending v)\<rparr>"
  using assms
  by (simp add: Let_def listener_updateSupportedTaskTypes_def getRegisteredTaskTypes_request_def)

lemma step_TaskServerReplied:
  assumes "pending v \<noteq> 0"
  shows "supportedTaskTypes (step c v (TaskServerReplied (Inr ts))) =
           sorted_list_of_set (set ts \<union> taskType ` set (taskDefinitionRegistry v))"
    and "problemMatcherNames (step c v (TaskServerReplied (Inr ts))) = problemMatcherNames v"
    and "publications (step c v (TaskServerReplied (Inr ts))) = Suc (publications v)"
  using assms
  by (simp_all add: publications_updateSupportedTaskTypes_resume) (simp add: publications_def)

section \<open>Problem matcher names\<close>

text \<open>
  Claim C2, as amended. Once \<open>init\<close> has returned, after every sequence of events the
  array \<open>problemMatcherNames\<close>, and with it both matcher-name enumerations of the assembled
  schema, is the list of the sigil-normalized names of the matchers the registry currently
  returns, in the registry's order and one entry per registry entry. Every recomputation
  replaces the array by that list, so its entries are exactly the normalized names of the
  current registry entries and a name that has been removed is gone. The list is neither
  deduplicated nor sorted.
\<close>

theorem matcher_enum_follows_registry:
  assumes "fst (init c w) = Inr ()"
  shows "problemMatcherNames (run c (snd (init c w)) es) =
           map (\<lambda>m. matcherName (name m)) (problemMatcherRegistry (run c (snd (init c w)) es))
     \<and> select_path (getTaskSchema c (run c (snd (init c w)) es)) problemMatcherEnum =
           Some (names (map (\<lambda>m. matcherName (name m)) (problemMatcherRegistry (run c (snd (init c w)) es))))
     \<and> select_path (getTaskSchema c (run c (snd (init c w)) es)) problemMatcherItemsEnum =
           Some (names (map (\<lambda>m. matcherName (name m)) (problemMatcherRegistry (run c (snd (init c w)) es))))
     \<and> problemMatcherNames (snd (updateProblemMatcherNames c v)) =
           map (\<lambda>m. matcherName (name m)) (problemMatcherRegistry v)
     \<and> set (problemMatcherNames (snd (updateProblemMatcherNames c v))) =
           (\<lambda>m. matcherName (name m)) ` set (problemMatcherRegistry v)"
proof -
  have "problemMatcherNames (run c (snd (init c w)) es) =
           map (\<lambda>m. matcherName (name m)) (problemMatcherRegistry (run c (snd (init c w)) es))"
    using run_matcher_invariant[of "snd (init c w)" c es] init_listening(1)[OF assms]
    by (simp add: init_slots)
  then show ?thesis
    by (simp add: select_problemMatcherEnum select_problemMatcherItemsEnum)
qed

theorem matcher_enum_follows_registry_witness:
  "problemMatcherNames
     (run (inmemory (JObject [])) (snd (init (inmemory (JObject [])) (module_loaded [\<lparr>name = ''gcc''\<rparr>] [])))
        [ProblemMatcherChanged [\<lparr>name = ''gcc''\<rparr>, \<lparr>name = ''foo''\<rparr>],
         ProblemMatcherChanged [\<lparr>name = ''foo''\<rparr>, \<lparr>name = ''$bar''\<rparr>, \<lparr>name = ''$foo''\<rparr>]])
   = [''$foo'', ''$bar'', ''$foo'']"
  using matcher_enum_follows_registry[OF init_inmemory_ok, of "JObject []" "module_loaded [\<lparr>name = ''gcc''\<rparr>] []"
        "[ProblemMatcherChanged [\<lparr>name = ''gcc''\<rparr>, \<lparr>name = ''foo''\<rparr>],
         ProblemMatcherChanged [\<lparr>name = ''foo''\<rparr>, \<lparr>name = ''$bar''\<rparr>, \<lparr>name = ''$foo''\<rparr>]]"]
  by (simp add: Let_def matcherName_def startsWith_def)

text \<open>
  Claim C2 as stated fails: a registry holding the matchers \<open>foo\<close> and \<open>$foo\<close> gives the
  enumeration the entry \<open>$foo\<close> twice, and a registry holding \<open>b\<close> before \<open>a\<close> gives an
  enumeration that is not sorted.
\<close>

theorem matcher_enum_not_deduplicated_not_sorted:
  "problemMatcherNames (snd (updateProblemMatcherNames (inmemory (JObject []))
       (module_loaded [\<lparr>name = ''foo''\<rparr>, \<lparr>name = ''$foo''\<rparr>] []))) = [''$foo'', ''$foo'']
   \<and> \<not> distinct (problemMatcherNames (snd (updateProblemMatcherNames (inmemory (JObject []))
       (module_loaded [\<lparr>name = ''foo''\<rparr>, \<lparr>name = ''$foo''\<rparr>] []))))
   \<and> problemMatcherNames (snd (updateProblemMatcherNames (inmemory (JObject []))
       (module_loaded [\<lparr>name = ''b''\<rparr>, \<lparr>name = ''a''\<rparr>] []))) = [''$b'', ''$a'']
   \<and> \<not> sorted (problemMatcherNames (snd (updateProblemMatcherNames (inmemory (JObject []))
       (module_loaded [\<lparr>name = ''b''\<rparr>, \<lparr>name = ''a''\<rparr>] []))))"
  by (simp add: module_loaded_def matcherName_def startsWith_def)

text \<open>
  Claim C6. The normalization of source line 100 leaves a name that starts with \<open>$\<close>
  unchanged and prepends \<open>$\<close> otherwise. So every entry is the sigil followed by the raw
  name without its own leading sigil, if it has one: the sigil is never added a second
  time. Normalizing twice is normalizing once, and \<open>$bar\<close> stays \<open>$bar\<close>.
\<close>

theorem matcherName_sigil_once:
  "matcherName n = (if startsWith n ''$'' then n else ''$'' @ n)
   \<and> startsWith (matcherName n) ''$''
   \<and> matcherName n = ''$'' @ (if startsWith n ''$'' then tl n else n)
   \<and> matcherName (matcherName n) = matcherName n
   \<and> matcherName ''$bar'' = ''$bar''"
  by (cases n) (simp_all add: matcherName_def startsWith_def)

section \<open>Task types\<close>

text \<open>
  Claim C1 fails on the code. \<open>updateSupportedTaskTypes\<close> empties the array, the defaults
  \<open>shell\<close> and \<open>process\<close> with it, and refills it with what \<open>getRegisteredTaskTypes\<close>
  returns, which is the sorted, deduplicated union of the server's and the registry's
  types only. With a server that answers with no types and an empty registry the
  recomputation succeeds and leaves the array, and the type enumeration of the schema,
  empty. With a server answering \<open>custom\<close> and a registry holding \<open>ext\<close> the result is
  these two, without the defaults.
\<close>

theorem defaults_dropped_by_recomputation:
  "supportedTaskTypes (module_loaded [] []) = [''shell'', ''process'']
   \<and> fst (updateSupportedTaskTypes (inmemory (JObject [])) (Inr []) (module_loaded [] [])) = Inr ()
   \<and> supportedTaskTypes
        (snd (updateSupportedTaskTypes (inmemory (JObject [])) (Inr []) (module_loaded [] []))) = []
   \<and> select_path
        (getTaskSchema (inmemory (JObject []))
           (snd (updateSupportedTaskTypes (inmemory (JObject [])) (Inr []) (module_loaded [] []))))
        typeEnum = Some (names [])
   \<and> supportedTaskTypes
        (snd (updateSupportedTaskTypes (inmemory (JObject [])) (Inr [''custom''])
           (module_loaded [] [\<lparr>taskType = ''ext''\<rparr>]))) = [''custom'', ''ext'']"
  by (simp add: updateSupportedTaskTypes_types updateSupportedTaskTypes_inmemory_ok select_typeEnum)
     (simp add: module_loaded_def Array_sort_def new_Set_def Set_add_def)

text \<open>
  Claim C4. When the request to the task server is rejected, \<open>updateSupportedTaskTypes\<close>
  throws the rejection on to its caller; the only thing it has done is the request: both
  arrays and the resource store are as before and no publication has been made. The same
  holds when the rejection arrives as an event for a pending recomputation.
\<close>

theorem remote_failure_leaves_types:
  "fst (updateSupportedTaskTypes c (Inl e) w) = Inl e
   \<and> snd (updateSupportedTaskTypes c (Inl e) w) = w\<lparr>calls := calls w @ [TaskServer_getRegisteredTaskTypes]\<rparr>
   \<and> supportedTaskTypes (snd (updateSupportedTaskTypes c (Inl e) w)) = supportedTaskTypes w
   \<and> problemMatcherNames (snd (updateSupportedTaskTypes c (Inl e) w)) = problemMatcherNames w
   \<and> inmemoryResources (snd (updateSupportedTaskTypes c (Inl e) w)) = inmemoryResources w
   \<and> publications (snd (updateSupportedTaskTypes c (Inl e) w)) = publications w
   \<and> step c w (TaskServerReplied (Inl e)) = w\<lparr>pending := pending w - 1\<rparr>"
  by (simp add: updateSupportedTaskTypes_def updateSupportedTaskTypes_resume_Inl
      getRegisteredTaskTypes_request_def publications_def)

text \<open>
  Claim C10. \<open>getRegisteredTaskTypes\<close> changes nothing of the component's state: it sends
  the request to the task server, leaves both arrays and the resource store as they are
  and publishes nothing. The merged, sorted list of types is its result only.
\<close>

theorem getRegisteredTaskTypes_read_only:
  "snd (getRegisteredTaskTypes reply w) = w\<lparr>calls := calls w @ [TaskServer_getRegisteredTaskTypes]\<rparr>
   \<and> supportedTaskTypes (snd (getRegisteredTaskTypes reply w)) = supportedTaskTypes w
   \<and> problemMatcherNames (snd (getRegisteredTaskTypes reply w)) = problemMatcherNames w
   \<and> inmemoryResources (snd (getRegisteredTaskTypes reply w)) = inmemoryResources w
   \<and> publications (snd (getRegisteredTaskTypes reply w)) = publications w
   \<and> fst (getRegisteredTaskTypes (Inr ts) w) =
        Inr (sorted_list_of_set (set ts \<union> taskType ` set (taskDefinitionRegistry w)))
   \<and> fst (getRegisteredTaskTypes (Inl e) w) = Inl e"
  by (simp add: getRegisteredTaskTypes_def Let_def getRegisteredTaskTypes_request_def
      getRegisteredTaskTypes_resume_Inr getRegisteredTaskTypes_resume_Inl publications_def)

section \<open>Assembly and serialization\<close>

text \<open>
  Claim C7. The serialized schema is a function of the contents of the two arrays: two
  states that agree on both arrays give the same string, whatever else differs. So what
  a publication writes to the store is the same string for both, and publishing a second
  time without a change writes the string that is already there.
\<close>

theorem stringified_schema_deterministic:
  assumes "problemMatcherNames w = problemMatcherNames w'"
      and "supportedTaskTypes w = supportedTaskTypes w'"
  shows "getStrigifiedTaskSchema c w = getStrigifiedTaskSchema c w'
     \<and> inmemoryResources (snd (update (inmemory i) w)) taskSchemaId =
       inmemoryResources (snd (update (inmemory i) w')) taskSchemaId
     \<and> inmemoryResources (snd (update (inmemory i) (snd (update (inmemory i) w)))) taskSchemaId =
       inmemoryResources (snd (update (inmemory i) w)) taskSchemaId"
proof -
  have sv: "slotValue w = slotValue w'"
    using assms by (auto simp: slotValue_def fun_eq_iff split: slot.split)
  have g: "getStrigifiedTaskSchema d w = getStrigifiedTaskSchema d w'" for d
    using sv deepClone_cong[OF sv] JSON_stringify_cong[OF sv]
    by (simp add: getStrigifiedTaskSchema_def getTaskSchema_def)
  have sv2: "slotValue (snd (update (inmemory i) w)) = slotValue w"
    by (auto simp: slotValue_def fun_eq_iff split: slot.split)
  have g2: "getStrigifiedTaskSchema (inmemory i) (snd (update (inmemory i) w)) = getStrigifiedTaskSchema (inmemory i) w"
    using deepClone_cong[OF sv2] JSON_stringify_cong[OF sv2]
    by (simp add: getStrigifiedTaskSchema_def getTaskSchema_def)
  show ?thesis
    by (simp add: update_inmemory_content g g2)
qed

theorem stringified_schema_deterministic_witness:
  "getStrigifiedTaskSchema (inmemory (JObject [])) (module_loaded [] [])
     = getStrigifiedTaskSchema (inmemory (JObject []))
         ((module_loaded [\<lparr>name = ''gcc''\<rparr>] [])\<lparr>calls := [OnDidChangeProblemMatcher], pending := 2\<rparr>)"
  using stringified_schema_deterministic[of "module_loaded [] []"
      "(module_loaded [\<lparr>name = ''gcc''\<rparr>] [])\<lparr>calls := [OnDidChangeProblemMatcher], pending := 2\<rparr>"
      "inmemory (JObject [])" "JObject []"]
  by (simp add: module_loaded_def)

text \<open>
  Claim C8. The template is deep-copied with the contents the two arrays have at that
  time, both read from one and the same state. The schema returned holds no reference to
  the arrays (the imported \<open>inputs\<close> schema, which is not copied, cannot refer to them, as
  they are private to the module): read in any later state \<open>w'\<close> it is the same object and
  has the same serialization. Its three enumerations are the arrays' contents at the time
  of the assembly.
\<close>

theorem assembled_schema_is_a_snapshot:
  assumes "shared_free (inputsSchema_inputs c)"
  shows "shared_free (getTaskSchema c w)
     \<and> deepClone w' (getTaskSchema c w) = getTaskSchema c w
     \<and> JSON_stringify w' (getTaskSchema c w) = JSON_stringify w (getTaskSchema c w)
     \<and> select_path (getTaskSchema c w) typeEnum = Some (names (supportedTaskTypes w))
     \<and> select_path (getTaskSchema c w) problemMatcherEnum = Some (names (problemMatcherNames w))
     \<and> select_path (getTaskSchema c w) problemMatcherItemsEnum = Some (names (problemMatcherNames w))"
proof -
  have sf: "shared_free (getTaskSchema c w)"
    using assms by (simp add: getTaskSchema_def shared_free_deepClone)
  show ?thesis
    using sf deepClone_shared_free[OF sf, of w'] JSON_stringify_shared_free[OF sf, of w' w]
    by (simp add: select_typeEnum select_problemMatcherEnum select_problemMatcherItemsEnum)
qed

theorem assembled_schema_is_a_snapshot_witness:
  "deepClone ((module_loaded [] [])\<lparr>problemMatcherNames := [''$gcc''], supportedTaskTypes := [''custom'']\<rparr>)
       (getTaskSchema (inmemory (JObject [])) (module_loaded [] []))
     = getTaskSchema (inmemory (JObject [])) (module_loaded [] [])
   \<and> select_path (getTaskSchema (inmemory (JObject [])) (module_loaded [] [])) typeEnum
     = Some (names [''shell'', ''process''])"
  using assembled_schema_is_a_snapshot[of "inmemory (JObject [])" "module_loaded [] []"
      "(module_loaded [] [])\<lparr>problemMatcherNames := [''$gcc''], supportedTaskTypes := [''custom'']\<rparr>"]
  by (simp add: inmemory_def module_loaded_def)

section \<open>Publication\<close>

text \<open>
  Claim C5. Every publication starts with \<open>update\<close> on the resource store under the fixed
  identifier, and when that call returns nothing else is done. With the store as the spec
  describes it (\<open>update\<close> fails exactly when no resource exists, \<open>add\<close> registers one): a
  publication that finds the resource does the update only; a publication that does not
  find it adds the resource and registers the schema for \<open>tasks.json\<close>. Starting without
  the resource, the first publication, made by \<open>init\<close>, takes the second path, and after
  every sequence of events the store has been added to once and the schema has been
  registered once: all later publications update only.
\<close>

theorem publication_updates_or_registers_once:
  "(\<exists>rest. calls (snd (update c w)) = calls w @ Resources_update taskSchemaId # rest)
   \<and> ((\<exists>r. resources_update c taskSchemaId (getStrigifiedTaskSchema c w) (inmemoryResources w) = Inr r)
        \<longrightarrow> calls (snd (update c w)) = calls w @ [Resources_update taskSchemaId])
   \<and> (inmemoryResources w taskSchemaId \<noteq> None
        \<longrightarrow> calls (snd (update (inmemory i) w)) = calls w @ [Resources_update taskSchemaId])
   \<and> (inmemoryResources w taskSchemaId = None
        \<longrightarrow> calls (snd (update (inmemory i) w)) =
              calls w @ [Resources_update taskSchemaId, Resources_add taskSchemaId,
                         RegisterSchema [''tasks.json''] taskSchemaId]
          \<and> calls (snd (init (inmemory i) w)) =
              calls w @ [Resources_update taskSchemaId, Resources_add taskSchemaId,
                         RegisterSchema [''tasks.json''] taskSchemaId,
                         TaskServer_getRegisteredTaskTypes, OnDidChangeProblemMatcher,
                         OnDidRegisterTaskDefinition, OnDidUnregisterTaskDefinition]
          \<and> registrations (run (inmemory i) (snd (init (inmemory i) w)) es) = Suc (registrations w)
          \<and> associations (run (inmemory i) (snd (init (inmemory i) w)) es) = Suc (associations w))"
proof -
  have a: "\<exists>rest. calls (snd (update c w)) = calls w @ Resources_update taskSchemaId # rest"
    using update_calls_cases[of c w] by auto
  have b: "calls (snd (update c w)) = calls w @ [Resources_update taskSchemaId]"
    if "\<exists>r. resources_update c taskSchemaId (getStrigifiedTaskSchema c w) (inmemoryResources w) = Inr r"
    using that update_succeeds_calls by blast
  have d: "registrations (run (inmemory i) (snd (init (inmemory i) w)) es) = Suc (registrations w)
      \<and> associations (run (inmemory i) (snd (init (inmemory i) w)) es) = Suc (associations w)"
    if absent: "inmemoryResources w taskSchemaId = None"
    using run_inmemory_counts[OF init_inmemory_absent(2)[OF absent], of i i es]
    by (simp add: registrations_def associations_def init_inmemory_absent(1)[OF absent])
  show ?thesis
    using a b d by (simp add: update_inmemory_present(2) update_inmemory_absent(2) init_inmemory_absent(1))
qed

theorem publication_updates_or_registers_once_witness:
  "calls (snd (update (inmemory (JObject [])) (module_loaded [] []))) =
     [Resources_update taskSchemaId, Resources_add taskSchemaId,
      RegisterSchema [''tasks.json''] taskSchemaId]
   \<and> calls (snd (update (inmemory (JObject []))
        ((module_loaded [] [])\<lparr>inmemoryResources := [taskSchemaId \<mapsto> ''{}'']\<rparr>))) =
     [Resources_update taskSchemaId]
   \<and> associations (run (inmemory (JObject [])) (snd (init (inmemory (JObject [])) (module_loaded [] [])))
        [ProblemMatcherChanged [\<lparr>name = ''gcc''\<rparr>], TaskServerReplied (Inr [''shell'']),
         TaskDefinitionRegistered [\<lparr>taskType = ''ext''\<rparr>], TaskServerReplied (Inr [''shell''])]) = 1"
proof -
  have absent: "inmemoryResources (module_loaded [] []) taskSchemaId = None"
    and fresh: "calls (module_loaded [] []) = []" "associations (module_loaded [] []) = 0"
    by (simp_all add: module_loaded_def associations_def)
  have present:
    "inmemoryResources ((module_loaded [] [])\<lparr>inmemoryResources := [taskSchemaId \<mapsto> ''{}'']\<rparr>)
       taskSchemaId \<noteq> None"
    and fresh': "calls ((module_loaded [] [])\<lparr>inmemoryResources := [taskSchemaId \<mapsto> ''{}'']\<rparr>) = []"
    by (simp_all add: module_loaded_def)
  show ?thesis
    using publication_updates_or_registers_once[of "inmemory (JObject [])" "module_loaded [] []" "JObject []"
      "[ProblemMatcherChanged [\<lparr>name = ''gcc''\<rparr>], TaskServerReplied (Inr [''shell'']),
         TaskDefinitionRegistered [\<lparr>taskType = ''ext''\<rparr>], TaskServerReplied (Inr [''shell''])]"]
      publication_updates_or_registers_once[of "inmemory (JObject [])"
      "(module_loaded [] [])\<lparr>inmemoryResources := [taskSchemaId \<mapsto> ''{}'']\<rparr>" "JObject []" "[]"]
      absent fresh present fresh'
    by (simp del: run_Cons run_Nil step.simps)
qed

text \<open>
  Claim C9. A recomputation writes the new contents into its array before it publishes.
  When the store's \<open>update\<close> and then its \<open>add\<close> throw for the content to be published,
  the recomputation throws what \<open>add\<close> threw, the store is as before, and the array holds
  the new contents: nothing is rolled back. This holds for the problem matcher names and,
  after a successful answer of the task server, for the task types.
\<close>

theorem name_sets_kept_when_publication_throws:
  "(resources_update c taskSchemaId
        (getStrigifiedTaskSchema c
           (w\<lparr>problemMatcherNames := map (\<lambda>m. matcherName (name m)) (problemMatcherRegistry w)\<rparr>))
        (inmemoryResources w) = Inl e1
    \<and> resources_add c taskSchemaId
        (getStrigifiedTaskSchema c
           (w\<lparr>problemMatcherNames := map (\<lambda>m. matcherName (name m)) (problemMatcherRegistry w)\<rparr>))
        (inmemoryResources w) = Inl e2
    \<longrightarrow> fst (updateProblemMatcherNames c w) = Inl e2
      \<and> problemMatcherNames (snd (updateProblemMatcherNames c w)) =
          map (\<lambda>m. matcherName (name m)) (problemMatcherRegistry w)
      \<and> inmemoryResources (snd (updateProblemMatcherNames c w)) = inmemoryResources w)
   \<and> (resources_update c taskSchemaId
        (getStrigifiedTaskSchema c
           (w\<lparr>supportedTaskTypes := sorted_list_of_set (set ts \<union> taskType ` set (taskDefinitionRegistry w))\<rparr>))
        (inmemoryResources w) = Inl e1
    \<and> resources_add c taskSchemaId
        (getStrigifiedTaskSchema c
           (w\<lparr>supportedTaskTypes := sorted_list_of_set (set ts \<union> taskType ` set (taskDefinitionRegistry w))\<rparr>))
        (inmemoryResources w) = Inl e2
    \<longrightarrow> fst (updateSupportedTaskTypes c (Inr ts) w) = Inl e2
      \<and> supportedTaskTypes (snd (updateSupportedTaskTypes c (Inr ts) w)) =
          sorted_list_of_set (set ts \<union> taskType ` set (taskDefinitionRegistry w))
      \<and> inmemoryResources (snd (updateSupportedTaskTypes c (Inr ts) w)) = inmemoryResources w)"
proof -
  let ?m = "map (\<lambda>m. matcherName (name m)) (problemMatcherRegistry w)"
  let ?t = "sorted_list_of_set (set ts \<union> taskType ` set (taskDefinitionRegistry w))"
  let ?v = "w\<lparr>calls := calls w @ [TaskServer_getRegisteredTaskTypes], supportedTaskTypes := ?t\<rparr>"
  have g: "getStrigifiedTaskSchema c ?v = getStrigifiedTaskSchema c (w\<lparr>supportedTaskTypes := ?t\<rparr>)"
    by (rule getStrigifiedTaskSchema_slots) simp_all
  have t: "updateSupportedTaskTypes c (Inr ts) w = update c ?v"
    by (simp add: updateSupportedTaskTypes_eq Array_sort_new_Set)
  have "fst (updateProblemMatcherNames c w) = Inl e2
      \<and> problemMatcherNames (snd (updateProblemMatcherNames c w)) = ?m
      \<and> inmemoryResources (snd (updateProblemMatcherNames c w)) = inmemoryResources w"
    if "resources_update c taskSchemaId (getStrigifiedTaskSchema c (w\<lparr>problemMatcherNames := ?m\<rparr>))
          (inmemoryResources w) = Inl e1"
      and "resources_add c taskSchemaId (getStrigifiedTaskSchema c (w\<lparr>problemMatcherNames := ?m\<rparr>))
          (inmemoryResources w) = Inl e2"
    using update_both_throw[of c "w\<lparr>problemMatcherNames := ?m\<rparr>" e1 e2] that
    by (simp add: updateProblemMatcherNames_eq)
  moreover have "fst (updateSupportedTaskTypes c (Inr ts) w) = Inl e2
      \<and> supportedTaskTypes (snd (updateSupportedTaskTypes c (Inr ts) w)) = ?t
      \<and> inmemoryResources (snd (updateSupportedTaskTypes c (Inr ts) w)) = inmemoryResources w"
    if "resources_update c taskSchemaId (getStrigifiedTaskSchema c (w\<lparr>supportedTaskTypes := ?t\<rparr>))
          (inmemoryResources w) = Inl e1"
      and "resources_add c taskSchemaId (getStrigifiedTaskSchema c (w\<lparr>supportedTaskTypes := ?t\<rparr>))
          (inmemoryResources w) = Inl e2"
    using update_both_throw[of c ?v e1 e2] that by (simp add: t g)
  ultimately show ?thesis by blast
qed

theorem name_sets_kept_when_publication_throws_witness:
  "problemMatcherNames (module_loaded [\<lparr>name = ''gcc''\<rparr>] []) = []
   \<and> fst (updateProblemMatcherNames (unavailable (JObject [])) (module_loaded [\<lparr>name = ''gcc''\<rparr>] []))
       = Inl (Error ''add failed'')
   \<and> problemMatcherNames
       (snd (updateProblemMatcherNames (unavailable (JObject [])) (module_loaded [\<lparr>name = ''gcc''\<rparr>] [])))
       = [''$gcc'']
   \<and> fst (updateSupportedTaskTypes (unavailable (JObject [])) (Inr [''custom''])
          (module_loaded [\<lparr>name = ''gcc''\<rparr>] []))
       = Inl (Error ''add failed'')
   \<and> supportedTaskTypes
       (snd (updateSupportedTaskTypes (unavailable (JObject [])) (Inr [''custom''])
          (module_loaded [\<lparr>name = ''gcc''\<rparr>] [])))
       = [''custom'']"
  using name_sets_kept_when_publication_throws[of "unavailable (JObject [])"
      "module_loaded [\<lparr>name = ''gcc''\<rparr>] []" "Error ''update failed''" "Error ''add failed''" "[''custom'']"]
  by (simp add: unavailable_def) (simp add: module_loaded_def matcherName_def startsWith_def)

section \<open>Start and notifications\<close>

text \<open>
  Claim C3, as amended. When \<open>init\<close> returns it has recomputed the problem matcher names
  and published once, has sent the request for the task types without waiting for the
  answer, so the task types are still those from before, and has registered its three
  listeners. When the answer arrives and is a list of types, the task types are recomputed
  and the schema is published a second time. From then on, after any sequence of events:
  a change of the problem matchers recomputes the problem matcher names only and publishes
  once; a registered or unregistered task definition sends a request to the task server
  and publishes nothing by itself; the answer to it, when it is a list of types, recomputes
  the task types only and publishes once.
\<close>

theorem startup_publishes_per_recomputation:
  assumes "fst (init c w) = Inr ()"
  shows "calls (snd (init c w)) =
           calls (snd (updateProblemMatcherNames c w)) @
             [TaskServer_getRegisteredTaskTypes, OnDidChangeProblemMatcher,
              OnDidRegisterTaskDefinition, OnDidUnregisterTaskDefinition]
     \<and> problemMatcherNames (snd (init c w)) = map (\<lambda>m. matcherName (name m)) (problemMatcherRegistry w)
     \<and> supportedTaskTypes (snd (init c w)) = supportedTaskTypes w
     \<and> publications (snd (init c w)) = Suc (publications w)
     \<and> pending (snd (init c w)) = Suc (pending w)
     \<and> supportedTaskTypes (step c (snd (init c w)) (TaskServerReplied (Inr ts))) =
          sorted_list_of_set (set ts \<union> taskType ` set (taskDefinitionRegistry w))
     \<and> publications (step c (snd (init c w)) (TaskServerReplied (Inr ts))) = Suc (Suc (publications w))
     \<and> (let v = run c (snd (init c w)) es in
          problemMatcherNames (step c v (ProblemMatcherChanged ms)) = map (\<lambda>m. matcherName (name m)) ms
        \<and> supportedTaskTypes (step c v (ProblemMatcherChanged ms)) = supportedTaskTypes v
        \<and> publications (step c v (ProblemMatcherChanged ms)) = Suc (publications v)
        \<and> step c v (TaskDefinitionRegistered ds) =
            v\<lparr>taskDefinitionRegistry := ds, calls := calls v @ [TaskServer_getRegisteredTaskTypes],
              pending := Suc (pending v)\<rparr>
        \<and> step c v (TaskDefinitionUnregistered ds) =
            v\<lparr>taskDefinitionRegistry := ds, calls := calls v @ [TaskServer_getRegisteredTaskTypes],
              pending := Suc (pending v)\<rparr>
        \<and> supportedTaskTypes (step c (step c v (TaskDefinitionRegistered ds)) (TaskServerReplied (Inr ts))) =
            sorted_list_of_set (set ts \<union> taskType ` set ds)
        \<and> problemMatcherNames (step c (step c v (TaskDefinitionRegistered ds)) (TaskServerReplied (Inr ts))) =
            problemMatcherNames v
        \<and> publications (step c (step c v (TaskDefinitionRegistered ds)) (TaskServerReplied (Inr ts))) =
            Suc (publications v))"
proof -
  let ?i = "snd (init c w)"
  let ?v = "run c ?i es"
  let ?r = "?v\<lparr>taskDefinitionRegistry := ds, calls := calls ?v @ [TaskServer_getRegisteredTaskTypes],
              pending := Suc (pending ?v)\<rparr>"
  have i1: "calls ?i = calls (snd (updateProblemMatcherNames c w)) @
             [TaskServer_getRegisteredTaskTypes, OnDidChangeProblemMatcher,
              OnDidRegisterTaskDefinition, OnDidUnregisterTaskDefinition]"
    and i2: "pending ?i = Suc (pending w)"
    by (simp_all add: init_ok(1)[OF assms])
  have p: "pending ?i \<noteq> 0" using i2 by simp
  have reg: "step c ?v (TaskDefinitionRegistered ds) = ?r"
    by (rule step_TaskDefinitionRegistered[OF run_listening(2)[OF assms]])
  have unreg: "step c ?v (TaskDefinitionUnregistered ds) = ?r"
    by (rule step_TaskDefinitionUnregistered[OF run_listening(3)[OF assms]])
  have pr: "pending ?r \<noteq> 0" by simp
  have r3: "publications ?r = publications ?v"
    by (simp add: publications_def)
  have pm: "problemMatcherNames (step c ?v (ProblemMatcherChanged ms)) = map (\<lambda>m. matcherName (name m)) ms"
    "supportedTaskTypes (step c ?v (ProblemMatcherChanged ms)) = supportedTaskTypes ?v"
    "publications (step c ?v (ProblemMatcherChanged ms)) = Suc (publications ?v)"
    by (rule step_ProblemMatcherChanged[OF run_listening(1)[OF assms]])+
  have first: "supportedTaskTypes (step c ?i (TaskServerReplied (Inr ts))) =
           sorted_list_of_set (set ts \<union> taskType ` set (taskDefinitionRegistry ?i))"
    "publications (step c ?i (TaskServerReplied (Inr ts))) = Suc (publications ?i)"
    by (rule step_TaskServerReplied[OF p])+
  have later: "supportedTaskTypes (step c ?r (TaskServerReplied (Inr ts))) =
           sorted_list_of_set (set ts \<union> taskType ` set (taskDefinitionRegistry ?r))"
    "problemMatcherNames (step c ?r (TaskServerReplied (Inr ts))) = problemMatcherNames ?r"
    "publications (step c ?r (TaskServerReplied (Inr ts))) = Suc (publications ?r)"
    by (rule step_TaskServerReplied[OF pr])+
  show ?thesis
    unfolding Let_def reg unreg
    using i1 i2 pm first later r3
    by (simp add: init_slots publications_init[OF assms] del: step.simps)
qed

theorem startup_publishes_per_recomputation_witness:
  "publications (snd (init (inmemory (JObject [])) (module_loaded [\<lparr>name = ''gcc''\<rparr>] []))) = 1
   \<and> problemMatcherNames (snd (init (inmemory (JObject [])) (module_loaded [\<lparr>name = ''gcc''\<rparr>] [])))
       = [''$gcc'']
   \<and> publications (step (inmemory (JObject []))
        (snd (init (inmemory (JObject [])) (module_loaded [\<lparr>name = ''gcc''\<rparr>] [])))
        (TaskServerReplied (Inr [''shell'']))) = 2"
proof -
  have fresh: "publications (module_loaded [\<lparr>name = ''gcc''\<rparr>] []) = 0"
    "problemMatcherRegistry (module_loaded [\<lparr>name = ''gcc''\<rparr>] []) = [\<lparr>name = ''gcc''\<rparr>]"
    by (simp_all add: module_loaded_def publications_def)
  show ?thesis
    using startup_publishes_per_recomputation[OF init_inmemory_ok, of "JObject []"
        "module_loaded [\<lparr>name = ''gcc''\<rparr>] []" "[''shell'']" "[]" "[]" "[]"] fresh
    by (simp add: matcherName_def startsWith_def del: step.simps run_Nil)
qed

text \<open>
  Claim C3 as stated fails. With a task server that answers \<open>custom\<close>: when \<open>init\<close> has
  returned, the listeners are registered and one publication has been made, but the task
  types are still the initial ones, not recomputed; the recomputation happens when the
  answer arrives, after the listeners have been registered, and is followed by a second
  publication.
\<close>

theorem startup_publishes_twice_and_listens_first:
  "fst (init (inmemory (JObject [])) (module_loaded [] [])) = Inr ()
   \<and> calls (snd (init (inmemory (JObject [])) (module_loaded [] []))) =
       [Resources_update taskSchemaId, Resources_add taskSchemaId,
        RegisterSchema [''tasks.json''] taskSchemaId,
        TaskServer_getRegisteredTaskTypes, OnDidChangeProblemMatcher,
        OnDidRegisterTaskDefinition, OnDidUnregisterTaskDefinition]
   \<and> supportedTaskTypes (snd (init (inmemory (JObject [])) (module_loaded [] []))) = [''shell'', ''process'']
   \<and> publications (snd (init (inmemory (JObject [])) (module_loaded [] []))) = 1
   \<and> supportedTaskTypes (step (inmemory (JObject [])) (snd (init (inmemory (JObject [])) (module_loaded [] [])))
        (TaskServerReplied (Inr [''custom'']))) = [''custom'']
   \<and> publications (step (inmemory (JObject [])) (snd (init (inmemory (JObject [])) (module_loaded [] [])))
        (TaskServerReplied (Inr [''custom'']))) = 2"
proof -
  have absent: "inmemoryResources (module_loaded [] []) taskSchemaId = None"
    and fresh: "calls (module_loaded [] []) = []" "publications (module_loaded [] []) = 0"
      "supportedTaskTypes (module_loaded [] []) = [''shell'', ''process'']"
      "pending (module_loaded [] []) = 0"  "taskDefinitionRegistry (module_loaded [] []) = []"
    by (simp_all add: module_loaded_def publications_def)
  have ok: "fst (init (inmemory (JObject [])) (module_loaded [] [])) = Inr ()"
    by (rule init_inmemory_ok)
  have p: "pending (snd (init (inmemory (JObject [])) (module_loaded [] []))) \<noteq> 0"
    by (simp add: init_ok(1)[OF ok])
  show ?thesis
    using ok fresh
    by (simp add: init_inmemory_absent(1)[OF absent] init_slots publications_init[OF ok]
        step_TaskServerReplied[OF p] del: step.simps)
qed

end
